theory Spec2Isabelle
  imports Main
begin

section \<open>Python values of the dashboard script\<close>

text \<open>
  The script \<^verbatim>\<open>app.py\<close> works on the values that \<^verbatim>\<open>response.json()\<close> decodes:
  \<^verbatim>\<open>None\<close>, booleans, integers, strings, lists and dicts. A dict is an association list
  in insertion order; a decoded dict has distinct keys. Strings are UTF-8 byte strings:
  the script only splits on the ASCII character \<^verbatim>\<open>-\<close> and concatenates, which agree on
  bytes and on code points. JSON numbers with a fraction or an exponent (Python floats)
  are not represented.
\<close>

datatype json =
    JNull
  | JBool bool
  | JInt int
  | JStr string
  | JList "json list"
  | JObj "(string \<times> json) list"

type_synonym dict = "(string \<times> json) list"

text \<open>
  The exceptions the modelled lines can raise. \<open>Unmodelled\<close> is no exception: it marks
  an argument of a pandas function that the model of the function does not cover.
\<close>

datatype py_error =
    KeyError string
  | TypeError
  | AttributeError
  | ValueError
  | OutOfBoundsDatetime
  | Unmodelled

text \<open>\<^verbatim>\<open>d.get(k, default)\<close> and \<^verbatim>\<open>d[k]\<close> on a dict.\<close>

definition dict_get :: "dict \<Rightarrow> string \<Rightarrow> json \<Rightarrow> json" where
  "dict_get d k dflt = (case map_of d k of None \<Rightarrow> dflt | Some v \<Rightarrow> v)"

definition dict_item :: "dict \<Rightarrow> string \<Rightarrow> py_error + json" where
  "dict_item d k = (case map_of d k of None \<Rightarrow> Inl (KeyError k) | Some v \<Rightarrow> Inr v)"

text \<open>Truth value of a decoded value, as \<^verbatim>\<open>if v:\<close> and \<^verbatim>\<open>not v\<close> test it.\<close>

fun truthy :: "json \<Rightarrow> bool" where
  "truthy JNull = False"
| "truthy (JBool b) = b"
| "truthy (JInt n) = (n \<noteq> 0)"
| "truthy (JStr s) = (s \<noteq> [])"
| "truthy (JList xs) = (xs \<noteq> [])"
| "truthy (JObj kvs) = (kvs \<noteq> [])"

text \<open>
  \<^verbatim>\<open>s.split(sep)\<close> for a one-character separator: the pieces between the separators,
  empty pieces kept, so the result is never empty.
\<close>

fun str_split :: "char \<Rightarrow> string \<Rightarrow> string list" where
  "str_split sep [] = [[]]"
| "str_split sep (c # cs) =
     (if c = sep then [] # str_split sep cs
      else (c # hd (str_split sep cs)) # tl (str_split sep cs))"

section \<open>Status translation\<close>






section \<open>Uptime ratios\<close>

text \<open>
  Lines 111 to 113. \<^verbatim>\<open>split\<close> is a method of strings only: any other value of the field
  raises \<^verbatim>\<open>AttributeError\<close>.
\<close>

definition uptime_ratios :: "dict \<Rightarrow> py_error + string list" where
  "uptime_ratios monitor =
     (case dict_get monitor ''custom_uptime_ratio'' (JStr ''0-0'') of
        JStr s \<Rightarrow> Inr (str_split CHR ''-'' s)
      | _ \<Rightarrow> Inl AttributeError)"

definition uptime_7_day :: "string list \<Rightarrow> string" where
  "uptime_7_day rs = (if length rs > 0 then rs ! 0 else ''N/A'')"

definition uptime_30_day :: "string list \<Rightarrow> string" where
  "uptime_30_day rs = (if length rs > 1 then rs ! 1 else ''N/A'')"

text \<open>The pair of the two values, the spec's \<^verbatim>\<open>parse_uptime\<close> on the monitor's field.\<close>

definition parse_uptime :: "dict \<Rightarrow> py_error + string \<times> string" where
  "parse_uptime monitor =
     (case uptime_ratios monitor of
        Inl e \<Rightarrow> Inl e
      | Inr rs \<Rightarrow> Inr (uptime_7_day rs, uptime_30_day rs))"

section \<open>Calendar time\<close>

text \<open>
  \<^verbatim>\<open>datetime.fromtimestamp(t)\<close> gives the local calendar time of \<open>t\<close> seconds after the
  epoch, and \<^verbatim>\<open>pd.to_datetime(..., unit='s')\<close> the calendar time in UTC. The local
  zone is the platform's: \<open>utcoffset\<close> gives the offset of local time from UTC, in
  seconds, at each instant. \<open>pads_year\<close> says whether the platform's \<^verbatim>\<open>%Y\<close> pads a
  year below 1000 with zeros (the C library decides).
\<close>

record datetime =
  year :: int
  month :: int
  day :: int
  hour :: int
  minute :: int
  second :: int












section \<open>What the script shows\<close>

text \<open>
  A row of the event table (the dict built at lines 146 to 150), a cell and a frame of
  pandas (the index and the named columns, all of one length), and the calls to the
  rendering toolkit in the order the script makes them.
  An f-string is kept as its pieces: the literal text and the values it interpolates.
\<close>

record log_row =
  Event :: string
  Timestamp :: string
  Details :: json

datatype cell = Cell json | NaN | Stamp datetime

record frame =
  frame_index :: "cell list"
  frame_data :: "(string \<times> cell list) list"

text \<open>
  The exceptions of \<^verbatim>\<open>requests\<close>: each is a \<^verbatim>\<open>RequestException\<close>. \<^verbatim>\<open>HTTPError\<close>
  carries the status code of the response.
\<close>

datatype request_exception =
    ConnectionError string
  | Timeout string
  | HTTPError int
  | JSONDecodeError string
  | OtherRequestException string

datatype fragment = Lit string | Val json | Exc request_exception

datatype ui_event =
    St_error "fragment list"
  | St_warning string
  | St_info string
  | St_title string
  | St_subheader string
  | St_line_chart frame
  | St_dataframe "log_row list"

type_synonym ui = "ui_event list"

section \<open>Fetcher\<close>

text \<open>
  The provider is outside the program: \<^verbatim>\<open>requests.post(API_URL, data=payload)\<close> either
  raises a \<^verbatim>\<open>RequestException\<close> (no connection, timeout, ...) or returns the final
  response, with a status code and a body that decodes as JSON or does not.
\<close>

record response =
  status_code :: int
  body :: "json option"

datatype post_outcome = Raises request_exception | Returns response

text \<open>
  \<^verbatim>\<open>response.raise_for_status()\<close> raises \<^verbatim>\<open>HTTPError\<close> for the client and server
  error statuses, 400 to 599, and for no other. \<^verbatim>\<open>response.json()\<close> raises
  \<^verbatim>\<open>requests.exceptions.JSONDecodeError\<close> on a body that is not JSON.
\<close>

definition raise_for_status :: "response \<Rightarrow> request_exception + unit" where
  "raise_for_status r =
     (if 400 \<le> status_code r \<and> status_code r < 600 then Inl (HTTPError (status_code r))
      else Inr ())"

definition response_json :: "response \<Rightarrow> request_exception + json" where
  "response_json r =
     (case body r of None \<Rightarrow> Inl (JSONDecodeError ''Expecting value'') | Some v \<Rightarrow> Inr v)"

text \<open>\<^verbatim>\<open>data.get(k, default)\<close> on a decoded value: only a dict has \<^verbatim>\<open>get\<close>.\<close>

definition py_get :: "json \<Rightarrow> string \<Rightarrow> json \<Rightarrow> py_error + json" where
  "py_get v k dflt = (case v of JObj d \<Rightarrow> Inr (dict_get d k dflt) | _ \<Rightarrow> Inl AttributeError)"

definition payload :: "json \<Rightarrow> dict" where
  "payload api_key =
     [(''api_key'', api_key), (''format'', JStr ''json''), (''response_times'', JInt 1),
      (''custom_uptime_ratios'', JInt 1), (''logs'', JInt 1), (''logs_limit'', JInt 50)]"

text \<open>
  \<^verbatim>\<open>fetch_uptimerobot_data\<close>, lines 40 to 67, one execution of its body (the caching
  decorator of line 39 is the toolkit's and is not part of the model). The result is
  the returned value, \<^verbatim>\<open>None\<close> being \<open>JNull\<close>, with the messages shown so far, or the
  exception that leaves the function.
\<close>

definition fetch_uptimerobot_data ::
    "(dict \<Rightarrow> post_outcome) \<Rightarrow> json \<Rightarrow> ui \<Rightarrow> py_error + json \<times> ui" where
  "fetch_uptimerobot_data post api_key u =
     (case (case post (payload api_key) of
              Raises e \<Rightarrow> Inl e
            | Returns r \<Rightarrow>
                (case raise_for_status r of
                   Inl e \<Rightarrow> Inl e
                 | Inr _ \<Rightarrow> response_json r)) of
        Inl e \<Rightarrow> Inr (JNull, u @ [St_error [Lit ''HTTP Request failed: '', Exc e]])
      | Inr data \<Rightarrow>
          (case py_get data ''stat'' JNull of
             Inl err \<Rightarrow> Inl err
           | Inr stat \<Rightarrow>
               if stat = JStr ''ok'' then
                 (case py_get data ''monitors'' (JList []) of
                    Inl err \<Rightarrow> Inl err
                  | Inr ms \<Rightarrow> Inr (ms, u))
               else
                 (case py_get data ''error'' (JStr ''Unknown error'') of
                    Inl err \<Rightarrow> Inl err
                  | Inr msg \<Rightarrow> Inr (JNull, u @ [St_error [Lit ''API Error: '', Val msg]]))))"

text \<open>A provider that gives the same outcome whatever the request.\<close>

definition answering :: "post_outcome \<Rightarrow> dict \<Rightarrow> post_outcome" where
  "answering outcome request = outcome"

section \<open>Normalizer: the index by name\<close>

text \<open>
  A dict whose keys are decoded values. Keys are compared as Python compares them:
  \<^verbatim>\<open>True\<close> and \<^verbatim>\<open>1\<close> (and \<^verbatim>\<open>False\<close> and \<^verbatim>\<open>0\<close>) are the same key. Storing under a key
  that is present replaces the value and keeps the position.
\<close>

fun key_of :: "json \<Rightarrow> json" where
  "key_of (JBool b) = JInt (if b then 1 else 0)"
| "key_of v = v"

fun hashable :: "json \<Rightarrow> bool" where
  "hashable (JList xs) = False"
| "hashable (JObj kvs) = False"
| "hashable v = True"

fun dict_set :: "json \<Rightarrow> 'v \<Rightarrow> (json \<times> 'v) list \<Rightarrow> (json \<times> 'v) list" where
  "dict_set k v [] = [(k, v)]"
| "dict_set k v ((k', v') # d) =
     (if key_of k' = key_of k then (k', v) # d else (k', v') # dict_set k v d)"

fun dict_lookup :: "(json \<times> 'v) list \<Rightarrow> json \<Rightarrow> 'v option" where
  "dict_lookup [] k = None"
| "dict_lookup ((k', v') # d) k = (if key_of k' = key_of k then Some v' else dict_lookup d k)"

text \<open>\<^verbatim>\<open>m['friendly_name']\<close>: a dict has the key or raises; nothing else takes a string index.\<close>

definition py_item :: "json \<Rightarrow> string \<Rightarrow> py_error + json" where
  "py_item v k = (case v of JObj d \<Rightarrow> dict_item d k | _ \<Rightarrow> Inl TypeError)"

text \<open>The dict comprehension of line 77, one record after the other.\<close>

fun monitor_dict :: "json list \<Rightarrow> (json \<times> json) list \<Rightarrow> py_error + (json \<times> json) list" where
  "monitor_dict [] acc = Inr acc"
| "monitor_dict (m # ms) acc =
     (case py_item m ''friendly_name'' of
        Inl e \<Rightarrow> Inl e
      | Inr name \<Rightarrow>
          if hashable name then monitor_dict ms (dict_set name m acc) else Inl TypeError)"

text \<open>
  \<^verbatim>\<open>process_monitor_data\<close>, lines 69 to 78. A value that is true and is no list either
  cannot be iterated or gives elements (characters, keys) that take no string index.
\<close>

definition process_monitor_data :: "json \<Rightarrow> py_error + (json \<times> json) list" where
  "process_monitor_data monitors =
     (if \<not> truthy monitors then Inr []
      else (case monitors of JList ms \<Rightarrow> monitor_dict ms [] | _ \<Rightarrow> Inl TypeError))"

section \<open>The script, to the point where it has monitors to show\<close>

text \<open>
  Lines 19 to 24 and 82 to 90. \<^verbatim>\<open>st.stop()\<close> ends the run; an exception that nothing
  catches ends it too.
\<close>

datatype run = Crashed py_error | Stopped ui | Showing "(json \<times> json) list" ui

definition script :: "(string \<rightharpoonup> string) \<Rightarrow> (dict \<Rightarrow> post_outcome) \<Rightarrow> run" where
  "script environ post =
     (let API_KEY = (case environ ''UPTIMEROBOT_API_KEY'' of None \<Rightarrow> [] | Some k \<Rightarrow> k)
      in if API_KEY = [] then
           Stopped [St_error [Lit ''API Key not found. Please check your UPTIMEROBOT_API_KEY environment variable in Render.'']]
         else
           (case fetch_uptimerobot_data post (JStr API_KEY)
                   [St_title ([CHR 0xF0, CHR 0x9F, CHR 0xA4, CHR 0x96] @ '' UptimeRobot Monitor Dashboard'')] of
              Inl e \<Rightarrow> Crashed e
            | Inr (monitors_list, u) \<Rightarrow>
                (case process_monitor_data monitors_list of
                   Inl e \<Rightarrow> Crashed e
                 | Inr monitors_dict \<Rightarrow>
                     if monitors_dict = [] then
                       Stopped (u @ [St_warning ''No monitor data found or an error occurred.''])
                     else Showing monitors_dict u)))"

section \<open>Normalizer: the selected monitor\<close>

text \<open>
  From line 102 on, \<^verbatim>\<open>monitor\<close> is a value of the index, so a dict: line 77 took
  its \<^verbatim>\<open>friendly_name\<close>.
\<close>

subsection \<open>Response times\<close>












subsection \<open>Event logs\<close>





section \<open>The contracts in the words of the specification\<close>

text \<open>
  A monitor record that the index can take: a dict with a \<^verbatim>\<open>friendly_name\<close> that can
  be a key. \<open>named n m\<close> says that the record \<open>m\<close> has the name \<open>n\<close>.
\<close>

definition indexable :: "json \<Rightarrow> bool" where
  "indexable m = (case py_item m ''friendly_name'' of Inl e \<Rightarrow> False | Inr n \<Rightarrow> hashable n)"

definition named :: "json \<Rightarrow> json \<Rightarrow> bool" where
  "named n m =
     (case py_item m ''friendly_name'' of Inl e \<Rightarrow> False | Inr n' \<Rightarrow> key_of n' = key_of n)"













section \<open>Properties of the string split\<close>



lemma str_split_append: "sep \<notin> set a \<Longrightarrow> str_split sep (a @ sep # r) = a # str_split sep r"
  by (induction a) auto



section \<open>Uptime ratios: the claims\<close>

text \<open>
  C3, as the specification states it, fails on a field that is present and empty: the
  default \<^verbatim>\<open>"0-0"\<close> of \<^verbatim>\<open>monitor.get\<close> stands in for an absent field only, and the
  empty string splits into the one empty segment, so the pair is the empty string
  and \<^verbatim>\<open>N/A\<close>, not \<^verbatim>\<open>("0", "0")\<close>.
\<close>

theorem parse_uptime_empty_string:
  "parse_uptime [(''custom_uptime_ratio'', JStr '''')] = Inr ('''', ''N/A'') \<and>
   parse_uptime [(''custom_uptime_ratio'', JStr '''')] \<noteq> Inr (''0'', ''0'')"
  by (simp add: parse_uptime_def uptime_ratios_def dict_get_def uptime_7_day_def uptime_30_day_def)

text \<open>
  C3, amended: when the field \<^verbatim>\<open>custom_uptime_ratio\<close> is absent from the monitor record,
  the ratio defaults to the literal \<^verbatim>\<open>"0-0"\<close>, is split on \<^verbatim>\<open>-\<close> and yields
  \<^verbatim>\<open>("0", "0")\<close>; applied to the empty string, parse_uptime yields the empty string
  and \<^verbatim>\<open>N/A\<close>.
\<close>

theorem parse_uptime_default:
  "(map_of monitor ''custom_uptime_ratio'' = None \<longrightarrow>
      uptime_ratios monitor = Inr (str_split CHR ''-'' ''0-0'') \<and>
      parse_uptime monitor = Inr (''0'', ''0'')) \<and>
   (map_of monitor ''custom_uptime_ratio'' = Some (JStr '''') \<longrightarrow>
      parse_uptime monitor = Inr ('''', ''N/A''))"
  by (simp add: parse_uptime_def uptime_ratios_def dict_get_def uptime_7_day_def uptime_30_day_def)

theorem parse_uptime_default_witness:
  "map_of [(''friendly_name'', JStr ''web'')] ''custom_uptime_ratio'' = None \<and>
   parse_uptime [(''friendly_name'', JStr ''web'')] = Inr (''0'', ''0'') \<and>
   map_of [(''custom_uptime_ratio'', JStr '''')] ''custom_uptime_ratio'' = Some (JStr '''') \<and>
   parse_uptime [(''custom_uptime_ratio'', JStr '''')] = Inr ('''', ''N/A'')"
  using parse_uptime_default [of "[(''friendly_name'', JStr ''web'')]"]
    parse_uptime_default [of "[(''custom_uptime_ratio'', JStr '''')]"]
  by simp



text \<open>
  C10: when the ratio splits into more than two segments, the first segment is the
  7-day value and the second the 30-day value, whatever follows: a ratio
  \<open>a-b-rest\<close>, with no dash in \<open>a\<close> and \<open>b\<close>, yields \<open>(a, b)\<close>.
\<close>

theorem parse_uptime_extra_segments:
  "(map_of monitor ''custom_uptime_ratio'' = Some (JStr s) \<and>
    uptime_ratios monitor = Inr rs \<and> length rs > 2 \<longrightarrow>
      rs = str_split CHR ''-'' s \<and> parse_uptime monitor = Inr (rs ! 0, rs ! 1)) \<and>
   (map_of monitor ''custom_uptime_ratio'' = Some (JStr (a @ ''-'' @ b @ ''-'' @ rest)) \<and>
    CHR ''-'' \<notin> set a \<and> CHR ''-'' \<notin> set b \<longrightarrow>
      parse_uptime monitor = Inr (a, b) \<and>
      uptime_ratios monitor = Inr (a # b # str_split CHR ''-'' rest))"
proof (intro conjI impI)
  assume h: "map_of monitor ''custom_uptime_ratio'' = Some (JStr s) \<and>
    uptime_ratios monitor = Inr rs \<and> length rs > 2"
  then show "rs = str_split CHR ''-'' s"
    by (auto simp: uptime_ratios_def dict_get_def)
  from h show "parse_uptime monitor = Inr (rs ! 0, rs ! 1)"
    by (auto simp: parse_uptime_def uptime_7_day_def uptime_30_day_def)
next
  assume h: "map_of monitor ''custom_uptime_ratio'' = Some (JStr (a @ ''-'' @ b @ ''-'' @ rest)) \<and>
    CHR ''-'' \<notin> set a \<and> CHR ''-'' \<notin> set b"
  then have "str_split CHR ''-'' (a @ ''-'' @ b @ ''-'' @ rest) = a # b # str_split CHR ''-'' rest"
    by (simp add: str_split_append)
  with h show rs: "uptime_ratios monitor = Inr (a # b # str_split CHR ''-'' rest)"
    by (simp add: uptime_ratios_def dict_get_def)
  then show "parse_uptime monitor = Inr (a, b)"
    by (simp add: parse_uptime_def uptime_7_day_def uptime_30_day_def)
qed

theorem parse_uptime_extra_segments_witness:
  "length (str_split CHR ''-'' ''1-2-3'') > 2 \<and>
   uptime_ratios [(''custom_uptime_ratio'', JStr ''1-2-3'')] = Inr [''1'', ''2'', ''3''] \<and>
   parse_uptime [(''custom_uptime_ratio'', JStr ''1-2-3'')] = Inr (''1'', ''2'')"
  using parse_uptime_extra_segments [of "[(''custom_uptime_ratio'', JStr ''1-2-3'')]" "''1-2-3''"
      "[''1'', ''2'', ''3'']" "''1''" "''2''" "''3''"]
  by (simp add: uptime_ratios_def dict_get_def)

section \<open>One log entry\<close>



section \<open>Status translation: the claim\<close>



section \<open>Fetcher: the claim\<close>




section \<open>No monitors: the claim\<close>

text \<open>
  C9: the index of the empty list of records is the empty mapping, and whenever the
  index is empty (the fetch gave no monitors, or no data) the script shows the
  warning and stops, without an exception.
\<close>
theorem no_monitors_halts:
  "process_monitor_data (JList []) = Inr [] \<and>
   process_monitor_data JNull = Inr [] \<and>
   (environ ''UPTIMEROBOT_API_KEY'' = Some k \<and> k \<noteq> [] \<and>
    fetch_uptimerobot_data post (JStr k)
      [St_title ([CHR 0xF0, CHR 0x9F, CHR 0xA4, CHR 0x96] @ '' UptimeRobot Monitor Dashboard'')] =
      Inr (monitors_list, u) \<and>
    process_monitor_data monitors_list = Inr [] \<longrightarrow>
      script environ post = Stopped (u @ [St_warning ''No monitor data found or an error occurred.'']))"
  by (simp add: process_monitor_data_def script_def)

theorem no_monitors_halts_witness:
  "process_monitor_data (JList []) = Inr [] \<and>
   script [''UPTIMEROBOT_API_KEY'' \<mapsto> ''u123-key'']
     (answering (Returns \<lparr>status_code = 200,
        body = Some (JObj [(''stat'', JStr ''ok''), (''monitors'', JList [])])\<rparr>)) =
     Stopped [St_title ([CHR 0xF0, CHR 0x9F, CHR 0xA4, CHR 0x96] @ '' UptimeRobot Monitor Dashboard''),
              St_warning ''No monitor data found or an error occurred.'']"
proof -
  have f: "fetch_uptimerobot_data
      (answering (Returns \<lparr>status_code = 200,
        body = Some (JObj [(''stat'', JStr ''ok''), (''monitors'', JList [])])\<rparr>)) (JStr ''u123-key'')
      [St_title ([CHR 0xF0, CHR 0x9F, CHR 0xA4, CHR 0x96] @ '' UptimeRobot Monitor Dashboard'')] =
      Inr (JList [], [St_title ([CHR 0xF0, CHR 0x9F, CHR 0xA4, CHR 0x96] @ '' UptimeRobot Monitor Dashboard'')])"
    by (simp add: fetch_uptimerobot_data_def raise_for_status_def response_json_def py_get_def
        dict_get_def answering_def)
  have p: "process_monitor_data (JList []) = Inr []"
    by (simp add: process_monitor_data_def)
  show ?thesis
    using f p no_monitors_halts [of "[''UPTIMEROBOT_API_KEY'' \<mapsto> ''u123-key'']" "''u123-key''"
        "answering (Returns \<lparr>status_code = 200,
          body = Some (JObj [(''stat'', JStr ''ok''), (''monitors'', JList [])])\<rparr>)" "JList []"
        "[St_title ([CHR 0xF0, CHR 0x9F, CHR 0xA4, CHR 0x96] @ '' UptimeRobot Monitor Dashboard'')]"]
    by simp
qed

section \<open>The index by name: the claim\<close>

lemma dict_lookup_set:
  "dict_lookup (dict_set k v d) k' = (if key_of k = key_of k' then Some v else dict_lookup d k')"
  by (induction d) auto

lemma keys_dict_set:
  "map (key_of \<circ> fst) (dict_set k v d) =
     (if key_of k \<in> set (map (key_of \<circ> fst) d) then map (key_of \<circ> fst) d
      else map (key_of \<circ> fst) d @ [key_of k])"
proof (induction d)
  case Nil
  show ?case by simp
next
  case (Cons a d)
  obtain k' v' where a: "a = (k', v')" by (cases a)
  show ?case
  proof (cases "key_of k' = key_of k")
    case True
    with a show ?thesis by simp
  next
    case False
    then have "key_of k \<noteq> key_of k'" by simp
    with False a Cons.IH show ?thesis by simp
  qed
qed

lemma distinct_dict_set:
  "distinct (map (key_of \<circ> fst) d) \<Longrightarrow> distinct (map (key_of \<circ> fst) (dict_set k v d))"
  by (simp add: keys_dict_set)

lemma entries_of_key:
  "distinct (map (key_of \<circ> fst) d) \<Longrightarrow> dict_lookup d k \<noteq> None \<Longrightarrow>
     length (filter (\<lambda>(k', v). key_of k' = key_of k) d) = 1"
proof (induction d)
  case Nil
  then show ?case by simp
next
  case (Cons a d)
  obtain k' v' where a: "a = (k', v')" by (cases a)
  show ?case
  proof (cases "key_of k' = key_of k")
    case True
    with Cons.prems a have "key_of k \<notin> set (map (key_of \<circ> fst) d)" by auto
    then have "\<forall>x \<in> set d. key_of (fst x) \<noteq> key_of k"
      by (auto simp: image_iff)
    then have "filter (\<lambda>(k', v). key_of k' = key_of k) d = []"
      by (auto simp: filter_empty_conv)
    with True a show ?thesis by simp
  next
    case False
    with Cons a show ?thesis by simp
  qed
qed

lemma monitor_dict_total:
  "list_all indexable ms \<Longrightarrow> \<exists>d. monitor_dict ms acc = Inr d"
  by (induction ms arbitrary: acc) (auto simp: indexable_def split: sum.splits)

lemma monitor_dict_distinct:
  "monitor_dict ms acc = Inr d \<Longrightarrow> distinct (map (key_of \<circ> fst) acc) \<Longrightarrow>
     distinct (map (key_of \<circ> fst) d)"
proof (induction ms arbitrary: acc)
  case Nil
  then show ?case by simp
next
  case (Cons m ms)
  from Cons.prems(1) obtain name where n: "py_item m ''friendly_name'' = Inr name"
    and h: "hashable name" and rest: "monitor_dict ms (dict_set name m acc) = Inr d"
    by (auto split: sum.splits if_splits)
  from Cons.prems(2) have "distinct (map (key_of \<circ> fst) (dict_set name m acc))"
    by (rule distinct_dict_set)
  with rest show ?case by (rule Cons.IH)
qed

lemma monitor_dict_lookup:
  "monitor_dict ms acc = Inr d \<Longrightarrow>
     dict_lookup d n =
       (if filter (named n) ms = [] then dict_lookup acc n else Some (last (filter (named n) ms)))"
proof (induction ms arbitrary: acc)
  case Nil
  then show ?case by simp
next
  case (Cons m ms)
  from Cons.prems obtain name where nm: "py_item m ''friendly_name'' = Inr name"
    and rest: "monitor_dict ms (dict_set name m acc) = Inr d"
    by (auto split: sum.splits if_splits)
  have IH: "dict_lookup d n =
       (if filter (named n) ms = [] then dict_lookup (dict_set name m acc) n
        else Some (last (filter (named n) ms)))"
    using rest by (rule Cons.IH)
  have named: "named n m \<longleftrightarrow> key_of name = key_of n"
    using nm by (simp add: named_def)
  show ?case
    unfolding IH by (simp add: dict_lookup_set named)
qed

text \<open>
  C7: for every sequence of monitor records that the index can take, the index holds
  for each record's \<^verbatim>\<open>friendly_name\<close> exactly one entry, and its value is the last
  record of the input with that name; so of two records with the same name the
  later one is kept, and every record's name is a key.
\<close>
theorem index_last_write_wins:
  "list_all indexable ms \<longrightarrow>
     (\<exists>d. process_monitor_data (JList ms) = Inr d \<and>
        distinct (map (key_of \<circ> fst) d) \<and>
        (\<forall>m \<in> set ms. \<forall>n. py_item m ''friendly_name'' = Inr n \<longrightarrow>
           dict_lookup d n = Some (last (filter (named n) ms)) \<and>
           length (filter (\<lambda>(k, v). key_of k = key_of n) d) = 1) \<and>
        (\<forall>n. dict_lookup d n =
           (if filter (named n) ms = [] then None else Some (last (filter (named n) ms)))))"
proof
  assume wf: "list_all indexable ms"
  show "\<exists>d. process_monitor_data (JList ms) = Inr d \<and>
        distinct (map (key_of \<circ> fst) d) \<and>
        (\<forall>m \<in> set ms. \<forall>n. py_item m ''friendly_name'' = Inr n \<longrightarrow>
           dict_lookup d n = Some (last (filter (named n) ms)) \<and>
           length (filter (\<lambda>(k, v). key_of k = key_of n) d) = 1) \<and>
        (\<forall>n. dict_lookup d n =
           (if filter (named n) ms = [] then None else Some (last (filter (named n) ms))))"
  proof (cases "ms = []")
    case True
    then show ?thesis by (simp add: process_monitor_data_def)
  next
    case False
    from wf obtain d where d: "monitor_dict ms [] = Inr d"
      using monitor_dict_total by blast
    with False have p: "process_monitor_data (JList ms) = Inr d"
      by (simp add: process_monitor_data_def)
    have dist: "distinct (map (key_of \<circ> fst) d)"
      using d by (rule monitor_dict_distinct) simp
    have look: "dict_lookup d n =
        (if filter (named n) ms = [] then None else Some (last (filter (named n) ms)))" for n
      using monitor_dict_lookup [OF d, of n] by simp
    have each: "dict_lookup d n = Some (last (filter (named n) ms)) \<and>
           length (filter (\<lambda>(k, v). key_of k = key_of n) d) = 1"
      if m: "m \<in> set ms" and n: "py_item m ''friendly_name'' = Inr n" for m n
    proof -
      from n have "named n m" by (simp add: named_def)
      with m have "filter (named n) ms \<noteq> []" by (auto simp: filter_empty_conv)
      then have l: "dict_lookup d n = Some (last (filter (named n) ms))"
        by (simp add: look)
      then have "dict_lookup d n \<noteq> None" by simp
      with dist have "length (filter (\<lambda>(k, v). key_of k = key_of n) d) = 1"
        by (rule entries_of_key)
      with l show ?thesis by simp
    qed
    from p dist each look show ?thesis by blast
  qed
qed

theorem index_last_write_wins_witness:
  "list_all indexable
     [JObj [(''friendly_name'', JStr ''web''), (''url'', JStr ''https://a.example'')],
      JObj [(''friendly_name'', JStr ''db''), (''url'', JStr ''https://b.example'')],
      JObj [(''friendly_name'', JStr ''web''), (''url'', JStr ''https://c.example'')]] \<and>
   process_monitor_data (JList
     [JObj [(''friendly_name'', JStr ''web''), (''url'', JStr ''https://a.example'')],
      JObj [(''friendly_name'', JStr ''db''), (''url'', JStr ''https://b.example'')],
      JObj [(''friendly_name'', JStr ''web''), (''url'', JStr ''https://c.example'')]]) =
   Inr [(JStr ''web'', JObj [(''friendly_name'', JStr ''web''), (''url'', JStr ''https://c.example'')]),
        (JStr ''db'', JObj [(''friendly_name'', JStr ''db''), (''url'', JStr ''https://b.example'')])]"
  using index_last_write_wins [of
     "[JObj [(''friendly_name'', JStr ''web''), (''url'', JStr ''https://a.example'')],
      JObj [(''friendly_name'', JStr ''db''), (''url'', JStr ''https://b.example'')],
      JObj [(''friendly_name'', JStr ''web''), (''url'', JStr ''https://c.example'')]]"]
  by (simp add: indexable_def py_item_def dict_item_def process_monitor_data_def)

section \<open>Calendar time: the ranges of month and day\<close>






section \<open>The shape of a formatted timestamp\<close>









section \<open>The event table: the claim\<close>







section \<open>The response-time series: the claim\<close>















end
